theory Spec2Isabelle
  imports Complex_Main
begin

section \<open>JavaScript numbers\<close>

text \<open>
  The optimizer computes on JavaScript numbers. The model keeps the three special values
  apart from the finite ones, because the code branches on them (\<open>Number.isNaN\<close>,
  \<open>b < Infinity\<close>, comparisons that are false on NaN). Finite values are real numbers:
  rounding, overflow to an infinity and the sign of zero are not modelled.
\<close>

datatype jsnum = NaN | PInf | NInf | Fin real

instantiation jsnum :: "{zero, one, plus, minus, uminus, times, inverse, abs, ord}"
begin

definition zero_jsnum :: jsnum where
  "zero_jsnum = Fin 0"

definition one_jsnum :: jsnum where
  "one_jsnum = Fin 1"

fun uminus_jsnum :: "jsnum \<Rightarrow> jsnum" where
  "uminus_jsnum NaN = NaN"
| "uminus_jsnum PInf = NInf"
| "uminus_jsnum NInf = PInf"
| "uminus_jsnum (Fin a) = Fin (- a)"

fun plus_jsnum :: "jsnum \<Rightarrow> jsnum \<Rightarrow> jsnum" where
  "plus_jsnum (Fin a) (Fin b) = Fin (a + b)"
| "plus_jsnum NaN y = NaN"
| "plus_jsnum x NaN = NaN"
| "plus_jsnum PInf NInf = NaN"
| "plus_jsnum NInf PInf = NaN"
| "plus_jsnum PInf y = PInf"
| "plus_jsnum x PInf = PInf"
| "plus_jsnum NInf y = NInf"
| "plus_jsnum x NInf = NInf"

definition minus_jsnum :: "jsnum \<Rightarrow> jsnum \<Rightarrow> jsnum" where
  "minus_jsnum (x::jsnum) y = x + (- y)"

fun times_jsnum :: "jsnum \<Rightarrow> jsnum \<Rightarrow> jsnum" where
  "times_jsnum (Fin a) (Fin b) = Fin (a * b)"
| "times_jsnum NaN y = NaN"
| "times_jsnum x NaN = NaN"
| "times_jsnum PInf PInf = PInf"
| "times_jsnum PInf NInf = NInf"
| "times_jsnum NInf PInf = NInf"
| "times_jsnum NInf NInf = PInf"
| "times_jsnum PInf (Fin b) = (if b = 0 then NaN else if 0 < b then PInf else NInf)"
| "times_jsnum NInf (Fin b) = (if b = 0 then NaN else if 0 < b then NInf else PInf)"
| "times_jsnum (Fin a) PInf = (if a = 0 then NaN else if 0 < a then PInf else NInf)"
| "times_jsnum (Fin a) NInf = (if a = 0 then NaN else if 0 < a then NInf else PInf)"

fun divide_jsnum :: "jsnum \<Rightarrow> jsnum \<Rightarrow> jsnum" where
  "divide_jsnum (Fin a) (Fin b) =
     (if b = 0 then (if a = 0 then NaN else if 0 < a then PInf else NInf) else Fin (a / b))"
| "divide_jsnum NaN y = NaN"
| "divide_jsnum x NaN = NaN"
| "divide_jsnum (Fin a) PInf = Fin 0"
| "divide_jsnum (Fin a) NInf = Fin 0"
| "divide_jsnum PInf (Fin b) = (if 0 \<le> b then PInf else NInf)"
| "divide_jsnum NInf (Fin b) = (if 0 \<le> b then NInf else PInf)"
| "divide_jsnum PInf PInf = NaN"
| "divide_jsnum PInf NInf = NaN"
| "divide_jsnum NInf PInf = NaN"
| "divide_jsnum NInf NInf = NaN"

fun inverse_jsnum :: "jsnum \<Rightarrow> jsnum" where
  "inverse_jsnum NaN = NaN"
| "inverse_jsnum PInf = Fin 0"
| "inverse_jsnum NInf = Fin 0"
| "inverse_jsnum (Fin a) = (if a = 0 then PInf else Fin (1 / a))"

fun abs_jsnum :: "jsnum \<Rightarrow> jsnum" where
  "abs_jsnum NaN = NaN"
| "abs_jsnum PInf = PInf"
| "abs_jsnum NInf = PInf"
| "abs_jsnum (Fin a) = Fin \<bar>a\<bar>"

fun less_jsnum :: "jsnum \<Rightarrow> jsnum \<Rightarrow> bool" where
  "less_jsnum (Fin a) (Fin b) = (a < b)"
| "less_jsnum NInf (Fin b) = True"
| "less_jsnum NInf PInf = True"
| "less_jsnum (Fin a) PInf = True"
| "less_jsnum x y = False"

fun less_eq_jsnum :: "jsnum \<Rightarrow> jsnum \<Rightarrow> bool" where
  "less_eq_jsnum (Fin a) (Fin b) = (a \<le> b)"
| "less_eq_jsnum NaN y = False"
| "less_eq_jsnum x NaN = False"
| "less_eq_jsnum NInf y = True"
| "less_eq_jsnum x PInf = True"
| "less_eq_jsnum PInf (Fin b) = False"
| "less_eq_jsnum (Fin a) NInf = False"
| "less_eq_jsnum PInf NInf = False"

instance ..

end

text \<open>\<open>Math.sqrt\<close> and \<open>Number.isNaN\<close> on numbers.\<close>

fun Math_sqrt :: "jsnum \<Rightarrow> jsnum" where
  "Math_sqrt NaN = NaN"
| "Math_sqrt PInf = PInf"
| "Math_sqrt NInf = NaN"
| "Math_sqrt (Fin a) = (if a < 0 then NaN else Fin (sqrt a))"

definition isNaN :: "jsnum \<Rightarrow> bool" where
  "isNaN x = (x = NaN)"


section \<open>Vectors\<close>

text \<open>
  Modelled from the spec: the helpers of \<open>utils/OtherUtils\<close> (\<open>addv\<close>, \<open>subv\<close>,
  \<open>negv\<close>, \<open>scalev\<close>, \<open>dot\<close>, \<open>normList\<close>, \<open>repeat\<close>) are not part of the sources
  at hand. The spec uses them as the componentwise sum and difference, the negation, the
  scaling, the inner product and the Euclidean norm of vectors of one length; on lists of
  different lengths the model stops at the shorter one.
\<close>

definition addv :: "jsnum list \<Rightarrow> jsnum list \<Rightarrow> jsnum list" where
  "addv xs ys = map2 (+) xs ys"

definition subv :: "jsnum list \<Rightarrow> jsnum list \<Rightarrow> jsnum list" where
  "subv xs ys = map2 (-) xs ys"

definition negv :: "jsnum list \<Rightarrow> jsnum list" where
  "negv xs = map uminus xs"

definition scalev :: "jsnum \<Rightarrow> jsnum list \<Rightarrow> jsnum list" where
  "scalev c xs = map (\<lambda>x. c * x) xs"

definition dot :: "jsnum list \<Rightarrow> jsnum list \<Rightarrow> jsnum" where
  "dot xs ys = foldl (+) (Fin 0) (map2 (*) xs ys)"

definition normList :: "jsnum list \<Rightarrow> jsnum" where
  "normList xs = Math_sqrt (foldl (+) (Fin 0) (map (\<lambda>e. e * e) xs))"

definition repeat :: "nat \<Rightarrow> 'a \<Rightarrow> 'a list" where
  "repeat n v = replicate n v"

section \<open>Globals of the optimizer\<close>

definition weightGrowthFactor :: jsnum where
  "weightGrowthFactor = Fin 10"

text \<open>The literal \<open>10e4\<close>.\<close>

definition constraintWeight :: jsnum where
  "constraintWeight = Fin (10 * 10 ^ 4)"

definition epStop :: jsnum where
  "epStop = Fin (1 / 10 ^ 3)"

definition EPSD :: jsnum where
  "EPSD = Fin (1 / 10 ^ 11)"

definition uoStop :: jsnum where
  "uoStop = Fin (1 / 10 ^ 2)"

definition USE_LINE_SEARCH :: bool where
  "USE_LINE_SEARCH = True"

definition BREAK_EARLY :: bool where
  "BREAK_EARLY = True"

definition unconstrainedConverged2 :: "jsnum \<Rightarrow> bool" where
  "unconstrainedConverged2 normGrad = (normGrad < uoStop)"

definition epConverged2 :: "jsnum list \<Rightarrow> jsnum list \<Rightarrow> jsnum \<Rightarrow> jsnum \<Rightarrow> bool" where
  "epConverged2 xs0 xs1 fxs0 fxs1 =
     (let stateChange = normList (subv xs1 xs0);
          energyChange = \<bar>fxs1 - fxs0\<bar>
      in stateChange < epStop \<or> energyChange < epStop)"

section \<open>The NaN guard\<close>

text \<open>
  \<open>containsNaN\<close> runs \<open>for (var n in numberList)\<close>: the loop variable takes the
  enumerable property names of the array, which are the indices written as decimal
  strings, and \<open>Number.isNaN\<close> is applied to that name. \<open>Number.isNaN\<close> is true
  of the number NaN only, and false of every value that is not a number.
\<close>

datatype jsval = JNum jsnum | JStr string

fun Number_isNaN :: "jsval \<Rightarrow> bool" where
  "Number_isNaN (JNum x) = isNaN x"
| "Number_isNaN (JStr s) = False"

fun string_of_nat :: "nat \<Rightarrow> string" where
  "string_of_nat n =
     (if n < 10 then [char_of (48 + n)]
      else string_of_nat (n div 10) @ [char_of (48 + n mod 10)])"

definition forin_keys :: "'a list \<Rightarrow> jsval list" where
  "forin_keys xs = map (\<lambda>i. JStr (string_of_nat i)) [0..<length xs]"

fun containsNaN_loop :: "jsval list \<Rightarrow> bool" where
  "containsNaN_loop [] = False"
| "containsNaN_loop (n # ns) = (if Number_isNaN n then True else containsNaN_loop ns)"

definition containsNaN :: "jsnum list \<Rightarrow> bool" where
  "containsNaN numberList = containsNaN_loop (forin_keys numberList)"


section \<open>Line search\<close>

text \<open>
  \<open>awLineSearch2\<close> with its local closures. The closures read the constants of the
  enclosing call (\<open>f\<close>, \<open>gradf\<close>, \<open>xs0\<close>, \<open>descentDir\<close>, \<open>fxs0\<close>, \<open>dufAtx0\<close>,
  \<open>minInterval\<close>, \<open>maxSteps\<close>); the model passes them as arguments. The iteration
  counter and the step bound are natural numbers. \<open>DEBUG_LINE_SEARCH\<close> is false, so the
  logging is left out.
\<close>

definition duf :: "jsnum list \<Rightarrow> (jsnum list \<Rightarrow> jsnum list) \<Rightarrow> jsnum list \<Rightarrow> jsnum" where
  "duf u gradf zs = dot u (gradf zs)"

definition c1 :: jsnum where
  "c1 = Fin (1 / 1000)"

definition c2 :: jsnum where
  "c2 = Fin (9 / 10)"

text \<open>The literal \<open>10e-10\<close>.\<close>

definition minInterval :: jsnum where
  "minInterval = Fin (10 / 10 ^ 10)"

definition armijo ::
  "(jsnum list \<Rightarrow> jsnum) \<Rightarrow> jsnum list \<Rightarrow> jsnum list \<Rightarrow> jsnum \<Rightarrow> jsnum \<Rightarrow> jsnum \<Rightarrow> bool" where
  "armijo f xs0 descentDir fxs0 dufAtx0 ti =
     (let cond1 = f (addv xs0 (scalev ti descentDir));
          cond2 = fxs0 + c1 * ti * dufAtx0
      in cond1 \<le> cond2)"

definition weakWolfe ::
  "(jsnum list \<Rightarrow> jsnum list) \<Rightarrow> jsnum list \<Rightarrow> jsnum list \<Rightarrow> jsnum \<Rightarrow> jsnum \<Rightarrow> bool" where
  "weakWolfe gradf xs0 descentDir dufAtx0 ti =
     (let cond1 = duf descentDir gradf (addv xs0 (scalev ti descentDir));
          cond2 = c2 * dufAtx0
      in cond1 \<ge> cond2)"

definition shouldStop :: "jsnum \<Rightarrow> nat \<Rightarrow> nat \<Rightarrow> jsnum \<Rightarrow> jsnum \<Rightarrow> bool" where
  "shouldStop minIv maxSteps numUpdates ai bi =
     (let intervalTooSmall = \<bar>bi - ai\<bar> < minIv;
          tooManySteps = numUpdates > maxSteps
      in intervalTooSmall \<or> tooManySteps)"

text \<open>The next trial step, computed after the bracket was updated.\<close>

definition nextTrial :: "jsnum \<Rightarrow> jsnum \<Rightarrow> jsnum" where
  "nextTrial a b = (if b < PInf then (a + b) / Fin 2 else Fin 2 * a)"

function awLoop ::
  "(jsnum list \<Rightarrow> jsnum) \<Rightarrow> (jsnum list \<Rightarrow> jsnum list) \<Rightarrow> jsnum list \<Rightarrow> jsnum list \<Rightarrow>
   jsnum \<Rightarrow> jsnum \<Rightarrow> jsnum \<Rightarrow> nat \<Rightarrow> nat \<Rightarrow> jsnum \<Rightarrow> jsnum \<Rightarrow> jsnum \<Rightarrow> jsnum" where
  "awLoop f gradf xs0 descentDir fxs0 dufAtx0 minIv maxSteps i a b t =
     (if shouldStop minIv maxSteps i a b then t
      else
        let isArmijo = armijo f xs0 descentDir fxs0 dufAtx0 t;
            isWolfe = weakWolfe gradf xs0 descentDir dufAtx0 t
        in if \<not> isArmijo then
             awLoop f gradf xs0 descentDir fxs0 dufAtx0 minIv maxSteps (i + 1) a t (nextTrial a t)
           else if \<not> isWolfe then
             awLoop f gradf xs0 descentDir fxs0 dufAtx0 minIv maxSteps (i + 1) t b (nextTrial t b)
           else t)"
  by pat_completeness auto
termination
  by (relation "measure (\<lambda>(f, gradf, xs0, descentDir, fxs0, dufAtx0, minIv, maxSteps, i, a, b, t).
        Suc maxSteps - i)")
     (auto simp: shouldStop_def)

declare awLoop.simps [simp del]

text \<open>
  The search with the width bound as an argument: \<open>awLineSearch2\<close> is this function at
  the \<open>minInterval\<close> of the source.
\<close>

definition awLineSearchWith ::
  "jsnum \<Rightarrow> jsnum list \<Rightarrow> (jsnum list \<Rightarrow> jsnum) \<Rightarrow> (jsnum list \<Rightarrow> jsnum list) \<Rightarrow>
   jsnum list \<Rightarrow> jsnum \<Rightarrow> nat \<Rightarrow> jsnum" where
  "awLineSearchWith minIv xs0 f gradf gradfxs0 fxs0 maxSteps =
     (let descentDir = negv gradfxs0;
          dufAtx0 = duf descentDir gradf xs0
      in awLoop f gradf xs0 descentDir fxs0 dufAtx0 minIv maxSteps 0 (Fin 0) PInf (Fin 1))"

definition awLineSearch2 ::
  "jsnum list \<Rightarrow> (jsnum list \<Rightarrow> jsnum) \<Rightarrow> (jsnum list \<Rightarrow> jsnum list) \<Rightarrow>
   jsnum list \<Rightarrow> jsnum \<Rightarrow> nat \<Rightarrow> jsnum" where
  "awLineSearch2 xs0 f gradf gradfxs0 fxs0 maxSteps =
     awLineSearchWith minInterval xs0 f gradf gradfxs0 fxs0 maxSteps"


section \<open>Errors\<close>

text \<open>Every \<open>throw\<close> of the optimizer, and the TypeError of a call on \<open>undefined\<close>.\<close>

datatype error =
    NaN_in_xs
  | NaN_in_gradfxs
  | Invalid_LBFGS_state
  | TypeError
  | Fn_not_found string
  | Display_error

section \<open>L-BFGS\<close>

text \<open>
  Column vectors and matrices of the \<open>eigen\<close> library are lists and lists of rows. Its
  operations are the usual ones: \<open>matSub\<close> and \<open>matAdd\<close> componentwise, \<open>mul\<close> by a
  scalar, \<open>matMul\<close> the matrix product, \<open>identity\<close> the unit matrix. All vectors of one
  run have the length of the variable vector.
\<close>

type_synonym vec = "jsnum list"
type_synonym matrix = "jsnum list list"

definition colVec :: "jsnum list \<Rightarrow> vec" where
  "colVec xs = xs"

definition vecList :: "vec \<Rightarrow> jsnum list" where
  "vecList xs = xs"

definition dotVec :: "vec \<Rightarrow> vec \<Rightarrow> jsnum" where
  "dotVec v w = foldl (+) (Fin 0) (map2 (*) v w)"

definition matSub :: "vec \<Rightarrow> vec \<Rightarrow> vec" where
  "matSub v w = map2 (-) v w"

definition matAdd :: "vec \<Rightarrow> vec \<Rightarrow> vec" where
  "matAdd v w = map2 (+) v w"

definition vmul :: "vec \<Rightarrow> jsnum \<Rightarrow> vec" where
  "vmul v c = map (\<lambda>e. e * c) v"

definition identity :: "nat \<Rightarrow> matrix" where
  "identity n = map (\<lambda>i. map (\<lambda>j. if i = j then Fin 1 else Fin 0) [0..<n]) [0..<n]"

definition mmul :: "matrix \<Rightarrow> jsnum \<Rightarrow> matrix" where
  "mmul m c = map (\<lambda>row. map (\<lambda>e. e * c) row) m"

definition matMul :: "matrix \<Rightarrow> vec \<Rightarrow> vec" where
  "matMul m v = map (\<lambda>row. dotVec row v) m"

record LbfgsParams =
  lastState :: "vec option"
  lastGrad :: "vec option"
  s_list :: "vec list"
  y_list :: "vec list"
  numUnconstrSteps :: nat
  memSize :: nat

definition calculate_rho :: "vec \<Rightarrow> vec \<Rightarrow> jsnum" where
  "calculate_rho s y = Fin 1 / (dotVec y s + EPSD)"

fun pull_q_back :: "vec \<times> jsnum list \<Rightarrow> jsnum \<times> vec \<times> vec \<Rightarrow> vec \<times> jsnum list" where
  "pull_q_back (q_i_plus_1, alphas2) (rho_i, s_i, y_i) =
     (let alpha_i = rho_i * dotVec s_i q_i_plus_1;
          q_i = matSub q_i_plus_1 (vmul y_i alpha_i)
      in (q_i, alphas2 @ [alpha_i]))"

definition estimate_hess :: "vec \<Rightarrow> vec \<Rightarrow> matrix" where
  "estimate_hess y_km1 s_km1 =
     (let gamma_k = dotVec s_km1 y_km1 / (dotVec y_km1 y_km1 + EPSD);
          n = length y_km1
      in mmul (identity n) gamma_k)"

fun push_r_forward :: "vec \<Rightarrow> (jsnum \<times> jsnum) \<times> (vec \<times> vec) \<Rightarrow> vec" where
  "push_r_forward r_i ((rho_i, alpha_i), (s_i, y_i)) =
     (let beta_i = rho_i * dotVec y_i r_i;
          r_i_plus_1 = matAdd r_i (vmul s_i (alpha_i - beta_i))
      in r_i_plus_1)"

text \<open>
  \<open>lbfgsInner\<close> reads \<open>ys[0]\<close> and \<open>ss[0]\<close>; on empty lists they are \<open>undefined\<close> and
  \<open>dotVec\<close> calls a method on \<open>undefined\<close>. \<open>_.zip\<close> pads the shorter list with
  \<open>undefined\<close>, with the same effect in \<open>calculate_rho\<close>.
\<close>

definition lbfgsInner :: "vec \<Rightarrow> vec list \<Rightarrow> vec list \<Rightarrow> error + vec" where
  "lbfgsInner grad_fx_k ss ys =
     (if length ss \<noteq> length ys \<or> ss = [] then Inl TypeError
      else
        let rhos = map (\<lambda>(s, y). calculate_rho s y) (zip ss ys);
            q_k = grad_fx_k;
            (q_k_minus_m, alphas) = foldl pull_q_back (q_k, []) (zip rhos (zip ss ys));
            h_0_k = estimate_hess (ys ! 0) (ss ! 0);
            r_k_minus_m = matMul h_0_k q_k_minus_m;
            inputs = rev (zip (zip rhos alphas) (zip ss ys));
            r_k = foldl push_r_forward r_k_minus_m inputs
        in Inr r_k)"

record LbfgsResult =
  gradfxsPreconditioned :: "jsnum list"
  updatedLbfgsInfo :: LbfgsParams

definition lbfgs :: "jsnum list \<Rightarrow> jsnum list \<Rightarrow> LbfgsParams \<Rightarrow> error + LbfgsResult" where
  "lbfgs xs gradfxs lbfgsInfo =
     (if numUnconstrSteps lbfgsInfo = 0 then
        Inr \<lparr> gradfxsPreconditioned = gradfxs,
              updatedLbfgsInfo = lbfgsInfo
                \<lparr> lastState := Some (colVec xs),
                  lastGrad := Some (colVec gradfxs),
                  s_list := [],
                  y_list := [],
                  numUnconstrSteps := 1 \<rparr> \<rparr>
      else
        case (lastState lbfgsInfo, lastGrad lbfgsInfo) of
          (Some x_km1, Some grad_fx_km1) \<Rightarrow>
            let x_k = colVec xs;
                grad_fx_k = colVec gradfxs;
                km1 = numUnconstrSteps lbfgsInfo;
                ss_km2 = s_list lbfgsInfo;
                ys_km2 = y_list lbfgsInfo;
                s_km1 = matSub x_k x_km1;
                y_km1 = matSub grad_fx_k grad_fx_km1;
                ss_km1 = take (memSize lbfgsInfo) ([s_km1] @ ss_km2);
                ys_km1 = take (memSize lbfgsInfo) ([y_km1] @ ys_km2)
            in (case lbfgsInner grad_fx_k ss_km1 ys_km1 of
                  Inl e \<Rightarrow> Inl e
                | Inr gradPreconditioned \<Rightarrow>
                    let descentDirCheck = Fin (- 1) * dotVec gradPreconditioned grad_fx_k
                    in if descentDirCheck > Fin 0 then
                         Inr \<lparr> gradfxsPreconditioned = gradfxs,
                               updatedLbfgsInfo = lbfgsInfo
                                 \<lparr> lastState := Some x_k,
                                   lastGrad := Some grad_fx_k,
                                   s_list := [],
                                   y_list := [],
                                   numUnconstrSteps := 1 \<rparr> \<rparr>
                       else
                         Inr \<lparr> gradfxsPreconditioned = vecList gradPreconditioned,
                               updatedLbfgsInfo = lbfgsInfo
                                 \<lparr> lastState := Some x_k,
                                   lastGrad := Some grad_fx_k,
                                   s_list := ss_km1,
                                   y_list := ys_km1,
                                   numUnconstrSteps := km1 + 1 \<rparr> \<rparr>)
        | _ \<Rightarrow> Inl Invalid_LBFGS_state)"

section \<open>Unconstrained minimization\<close>

text \<open>
  The result of \<open>minimize\<close>. Its fields \<open>xs\<close> and \<open>gradient\<close> are named
  \<open>xs_opt\<close> and \<open>gradient_opt\<close> here.
\<close>

record OptInfo =
  xs_opt :: "jsnum list"
  energyVal :: jsnum
  normGrad :: jsnum
  newLbfgsInfo :: LbfgsParams
  gradient_opt :: "jsnum list"
  gradientPreconditioned :: "jsnum list"
  failed :: bool

text \<open>
  The update \<open>xs.map((x, j) => x - t * gradfxsPreconditioned[j])\<close>: an index beyond the
  direction vector reads \<open>undefined\<close>, and the arithmetic on it gives NaN.
\<close>

definition gdUpdate :: "jsnum list \<Rightarrow> jsnum \<Rightarrow> jsnum list \<Rightarrow> jsnum list" where
  "gdUpdate zs t d =
     map (\<lambda>j. if j < length d then zs ! j - t * d ! j else NaN) [0..<length zs]"

text \<open>
  The loop of \<open>minimize\<close>, by recursion on the number of iterations that remain
  (\<open>numSteps - i\<close>); the record holds the variables of the loop that the result reads.
  The step budget is a natural number, and line search takes its default bound of 10.
\<close>

fun minimizeLoop ::
  "(jsnum list \<Rightarrow> jsnum) \<Rightarrow> (jsnum list \<Rightarrow> jsnum list) \<Rightarrow> nat \<Rightarrow> OptInfo \<Rightarrow> error + OptInfo" where
  "minimizeLoop f gradf 0 st = Inr st"
| "minimizeLoop f gradf (Suc n) st =
     (if containsNaN (xs_opt st) then Inl NaN_in_xs
      else
        let fxs = f (xs_opt st);
            gradfxs = gradf (xs_opt st)
        in if containsNaN gradfxs then Inl NaN_in_gradfxs
           else
             case lbfgs (xs_opt st) gradfxs (newLbfgsInfo st) of
               Inl e \<Rightarrow> Inl e
             | Inr res \<Rightarrow>
                 let st1 = st \<lparr> energyVal := fxs,
                                gradient_opt := gradfxs,
                                newLbfgsInfo := updatedLbfgsInfo res,
                                gradientPreconditioned := gradfxsPreconditioned res,
                                normGrad := dot gradfxs (gradfxsPreconditioned res) \<rparr>
                 in if BREAK_EARLY \<and> unconstrainedConverged2 (normGrad st1) then Inr st1
                    else
                      let t = (if USE_LINE_SEARCH
                               then awLineSearch2 (xs_opt st) f gradf (gradfxsPreconditioned res) fxs 10
                               else Fin (1 / 10000));
                          normGrad' = normList gradfxs
                      in if isNaN fxs \<or> isNaN normGrad' then Inr (st1 \<lparr> failed := True \<rparr>)
                         else minimizeLoop f gradf n
                                (st1 \<lparr> xs_opt := gdUpdate (xs_opt st) t (gradfxsPreconditioned res) \<rparr>))"

definition minimize ::
  "jsnum list \<Rightarrow> (jsnum list \<Rightarrow> jsnum) \<Rightarrow> (jsnum list \<Rightarrow> jsnum list) \<Rightarrow> LbfgsParams \<Rightarrow>
   string list \<Rightarrow> nat \<Rightarrow> error + OptInfo" where
  "minimize xs0 f gradf lbfgsInfo varyingPaths numSteps =
     minimizeLoop f gradf numSteps
       \<lparr> xs_opt = xs0,
         energyVal = Fin 0,
         normGrad = Fin 0,
         newLbfgsInfo = lbfgsInfo,
         gradient_opt = repeat (length xs0) (Fin 0),
         gradientPreconditioned = repeat (length xs0) (Fin 0),
         failed = False \<rparr>"


section \<open>The energy graph\<close>

text \<open>
  Modelled from the spec: the module \<open>engine/Autodiff\<close> (\<open>varOf\<close>, \<open>markInput\<close>,
  \<open>add\<close>, \<open>mul\<close>, \<open>ops.vsum\<close>, \<open>fns.toPenalty\<close>, \<open>makeADInputVars\<close>) is not part
  of the sources at hand. The spec describes a graph node as an operation tag, the ordered
  list of its operand nodes and a cached forward value, an input as a node marked
  addressable, and the penalty transform as \<open>max(c, 0)^2\<close>. A node built from operands
  holds the value computed from their values.
\<close>

datatype VarAD =
  VarAD (val: jsnum) (op: string) (isInput: bool) (index: int) (children: "VarAD list")

definition variableAD :: "jsnum \<Rightarrow> string \<Rightarrow> VarAD" where
  "variableAD x vname = VarAD x vname False (- 100) []"

definition varOf :: "jsnum \<Rightarrow> string \<Rightarrow> VarAD" where
  "varOf x vname = variableAD x vname"

definition markInput :: "VarAD \<Rightarrow> int \<Rightarrow> VarAD" where
  "markInput v i = VarAD (val v) (op v) True i (children v)"

definition add :: "VarAD \<Rightarrow> VarAD \<Rightarrow> VarAD" where
  "add v w = VarAD (val v + val w) ''+'' False (- 100) [v, w]"

definition mul :: "VarAD \<Rightarrow> VarAD \<Rightarrow> VarAD" where
  "mul v w = VarAD (val v * val w) ''*'' False (- 100) [v, w]"

definition Math_max :: "jsnum \<Rightarrow> jsnum \<Rightarrow> jsnum" where
  "Math_max a b = (if a = NaN \<or> b = NaN then NaN else if a < b then b else a)"

definition maxAD :: "VarAD \<Rightarrow> VarAD \<Rightarrow> VarAD" where
  "maxAD v w = VarAD (Math_max (val v) (val w)) ''max'' False (- 100) [v, w]"

definition squared :: "VarAD \<Rightarrow> VarAD" where
  "squared v = VarAD (val v * val v) ''squared'' False (- 100) [v]"

definition toPenalty :: "VarAD \<Rightarrow> VarAD" where
  "toPenalty x = squared (maxAD x (variableAD (Fin 0) ''0''))"

definition vsum :: "VarAD list \<Rightarrow> VarAD" where
  "vsum v = foldl add (variableAD (Fin 0) ''0'') v"

definition makeADInputVars :: "jsnum list \<Rightarrow> VarAD list" where
  "makeADInputVars zs =
     map (\<lambda>i. markInput (variableAD (zs ! i) ''x'') (int i)) [0..<length zs]"

section \<open>The optimization state\<close>

datatype OptStatus =
  NewIter | UnconstrainedRunning | UnconstrainedConverged | EPConverged | Error

text \<open>
  The fields of \<open>Params\<close> that the optimizer reads or writes. The round counters are
  natural numbers. \<open>objective\<close> and \<open>gradient\<close> are absent until the problem is compiled.
\<close>

record Params =
  optStatus :: OptStatus
  weight :: jsnum
  UOround :: nat
  lastUOstate :: "jsnum list"
  lastUOenergy :: jsnum
  EPround :: nat
  lastEPstate :: "jsnum list"
  lastEPenergy :: jsnum
  lastGradient :: "jsnum list"
  lastGradientPreconditioned :: "jsnum list"
  lbfgsInfo :: LbfgsParams
  xsVars :: "VarAD list"
  functionsCompiled :: bool
  objective :: "(jsnum \<Rightarrow> jsnum list \<Rightarrow> jsnum) option"
  gradient :: "(jsnum \<Rightarrow> jsnum list \<Rightarrow> jsnum list) option"
  currObjective :: "jsnum list \<Rightarrow> jsnum"
  currGradient :: "jsnum list \<Rightarrow> jsnum list"
  energyGraph :: "VarAD option"
  constrWeightNode :: "VarAD option"
  epWeightNode :: "VarAD option"

text \<open>A term names a function and lists its argument expressions, of a type \<open>'e\<close>.\<close>

record 'e Fn =
  fname :: string
  fargs :: "'e list"

record FnDone =
  name :: string
  args :: "VarAD list"

text \<open>
  The state. \<open>display\<close> stands for the translation, the shapes and the other fields
  that only the evaluator and the renderer use.
\<close>

record ('e, 'd) State =
  varyingValues :: "jsnum list"
  varyingPaths :: "string list"
  objFns :: "'e Fn list"
  constrFns :: "'e Fn list"
  display :: 'd
  params :: Params


section \<open>What the optimizer is given\<close>

text \<open>
  Modelled from the spec: the constants \<open>initConstraintWeight\<close> and
  \<open>defaultLbfgsParams\<close> of \<open>engine/EngineUtils\<close>, the dictionaries \<open>objDict\<close> and
  \<open>constrDict\<close> of \<open>contrib/Constraints\<close>, \<open>evalFns\<close> of \<open>engine/Evaluator\<close> and
  \<open>energyAndGradCompiled\<close> of \<open>engine/Autodiff\<close> are not part of the sources at hand;
  they are arguments of the model.
  \<^item> \<open>evalFns\<close> evaluates the arguments of each term, on the translation with the
    varying inputs inserted; \<open>argValue\<close> is part of it.
  \<^item> \<open>energyAndGradCompiled\<close> gives the value and the gradient closures, both waiting
    for the penalty weight.
  \<^item> \<open>displayUpdate\<close> is \<open>insertVaryings\<close>, \<open>evalShapes\<close> and the colour assignment
    of \<open>renderer/Color\<close>, which throws on malformed shapes: the spec calls the step a
    pure projection of the variables into the shapes, so it gives the display fields and
    leaves the others.
\<close>

type_synonym WeightInfo = "VarAD \<times> VarAD \<times> jsnum \<times> jsnum"

record ('e, 'd) Externals =
  initConstraintWeight :: jsnum
  defaultLbfgsParams :: LbfgsParams
  objDict :: "string \<Rightarrow> (VarAD list \<Rightarrow> VarAD) option"
  constrDict :: "string \<Rightarrow> (VarAD list \<Rightarrow> VarAD) option"
  evalFns :: "'e Fn list \<Rightarrow> 'd \<Rightarrow> string list \<Rightarrow> VarAD list \<Rightarrow> FnDone list"
  energyAndGradCompiled ::
    "jsnum list \<Rightarrow> VarAD list \<Rightarrow> VarAD \<Rightarrow> WeightInfo option \<Rightarrow>
     (jsnum \<Rightarrow> jsnum list \<Rightarrow> jsnum) \<times> (jsnum \<Rightarrow> jsnum list \<Rightarrow> jsnum list)"
  displayUpdate :: "('e, 'd) State \<Rightarrow> error + 'd"

section \<open>Compiling the energy\<close>

definition applyFn :: "FnDone \<Rightarrow> (string \<Rightarrow> (VarAD list \<Rightarrow> VarAD) option) \<Rightarrow> error + VarAD" where
  "applyFn f dict =
     (case dict (name f) of
        Some g \<Rightarrow> Inr (g (args f))
      | None \<Rightarrow> Inl (Fn_not_found (name f)))"

text \<open>\<open>Array.map\<close> with a callback that may throw: the first error ends it.\<close>

fun mapE :: "('a \<Rightarrow> error + 'b) \<Rightarrow> 'a list \<Rightarrow> error + 'b list" where
  "mapE g [] = Inr []"
| "mapE g (x # rest) =
     (case g x of
        Inl e \<Rightarrow> Inl e
      | Inr y \<Rightarrow> (case mapE g rest of Inl e \<Rightarrow> Inl e | Inr ys \<Rightarrow> Inr (y # ys)))"

record EnergyGraphs =
  res_energyGraph :: VarAD
  res_constrWeightNode :: VarAD
  res_epWeightNode :: VarAD

definition evalEnergyOnCustom ::
  "('e, 'd) Externals \<Rightarrow> ('e, 'd) State \<Rightarrow> VarAD list \<Rightarrow> error + EnergyGraphs" where
  "evalEnergyOnCustom ext state xsVars' =
     (let objEvaled = evalFns ext (objFns state) (display state) (varyingPaths state) xsVars';
          constrEvaled = evalFns ext (constrFns state) (display state) (varyingPaths state) xsVars'
      in case mapE (\<lambda>ob. applyFn ob (objDict ext)) objEvaled of
           Inl e \<Rightarrow> Inl e
         | Inr objEngs \<Rightarrow>
            (case mapE (\<lambda>c. map_sum id toPenalty (applyFn c (constrDict ext))) constrEvaled of
               Inl e \<Rightarrow> Inl e
             | Inr constrEngs \<Rightarrow>
                 let constrWeightNode' = varOf constraintWeight ''constraintWeight'';
                     epWeightNode' = markInput (varOf (weight (params state)) ''epWeight'') (- 1);
                     objEng = vsum objEngs;
                     constrEng = vsum constrEngs;
                     overallEng = add objEng (mul constrEng (mul constrWeightNode' epWeightNode'))
                 in Inr \<lparr> res_energyGraph = overallEng,
                          res_constrWeightNode = constrWeightNode',
                          res_epWeightNode = epWeightNode' \<rparr>))"

definition genOptProblem ::
  "('e, 'd) Externals \<Rightarrow> ('e, 'd) State \<Rightarrow> error + ('e, 'd) State" where
  "genOptProblem ext state =
     (let zs = varyingValues state;
          xsVars' = makeADInputVars zs
      in case evalEnergyOnCustom ext state xsVars' of
           Inl e \<Rightarrow> Inl e
         | Inr res \<Rightarrow>
             let weightInfo = (res_constrWeightNode res, res_epWeightNode res,
                               constraintWeight, initConstraintWeight ext);
                 (f, gradf) = energyAndGradCompiled ext zs xsVars' (res_energyGraph res)
                                (Some weightInfo)
             in Inr (state \<lparr> params := (params state)
                  \<lparr> xsVars := xsVars',
                    lastGradient := repeat (length zs) (Fin 0),
                    lastGradientPreconditioned := repeat (length zs) (Fin 0),
                    objective := Some f,
                    gradient := Some gradf,
                    functionsCompiled := True,
                    currObjective := f (initConstraintWeight ext),
                    currGradient := gradf (initConstraintWeight ext),
                    energyGraph := Some (res_energyGraph res),
                    constrWeightNode := Some (res_constrWeightNode res),
                    epWeightNode := Some (res_epWeightNode res),
                    weight := initConstraintWeight ext,
                    UOround := 0,
                    EPround := 0,
                    optStatus := UnconstrainedRunning,
                    lbfgsInfo := defaultLbfgsParams ext \<rparr> \<rparr>))"

section \<open>The exterior-point step\<close>

text \<open>
  The end of \<open>step\<close>, after the \<open>switch\<close>: with \<open>evaluate\<close> the new variable vector is
  stored and the shapes are computed from it; without it the state keeps the variable
  vector it had.
\<close>

definition finishStep ::
  "('e, 'd) Externals \<Rightarrow> bool \<Rightarrow> ('e, 'd) State \<Rightarrow> jsnum list \<Rightarrow> error + ('e, 'd) State" where
  "finishStep ext evaluate newState zs =
     (if evaluate then
        (let s1 = newState \<lparr> varyingValues := zs \<rparr>
         in case displayUpdate ext s1 of
              Inl e \<Rightarrow> Inl e
            | Inr d \<Rightarrow> Inr (s1 \<lparr> display := d \<rparr>))
      else Inr newState)"

definition step ::
  "('e, 'd) Externals \<Rightarrow> ('e, 'd) State \<Rightarrow> nat \<Rightarrow> bool \<Rightarrow> error + ('e, 'd) State" where
  "step ext state steps evaluate =
     (let optParams = params state;
          zs = varyingValues state
      in case optStatus optParams of
        NewIter \<Rightarrow>
          (case (objective optParams, gradient optParams) of
             (Some obj, Some grad) \<Rightarrow>
               Inr (state \<lparr> params := optParams
                 \<lparr> weight := initConstraintWeight ext,
                   UOround := 0,
                   EPround := 0,
                   optStatus := UnconstrainedRunning,
                   lbfgsInfo := defaultLbfgsParams ext \<rparr> \<rparr>)
           | _ \<Rightarrow> genOptProblem ext state)
      | UnconstrainedRunning \<Rightarrow>
          (case minimize zs (currObjective optParams) (currGradient optParams)
                  (lbfgsInfo optParams) (varyingPaths state) steps of
             Inl e \<Rightarrow> Inl e
           | Inr res \<Rightarrow>
               let p1 = optParams
                     \<lparr> lastUOstate := xs_opt res,
                       lastUOenergy := energyVal res,
                       UOround := UOround optParams + 1,
                       lbfgsInfo := newLbfgsInfo res,
                       lastGradient := gradient_opt res,
                       lastGradientPreconditioned := gradientPreconditioned res \<rparr>;
                   p2 = (if unconstrainedConverged2 (normGrad res)
                         then p1 \<lparr> optStatus := UnconstrainedConverged,
                                  lbfgsInfo := defaultLbfgsParams ext \<rparr>
                         else p1 \<lparr> optStatus := UnconstrainedRunning \<rparr>)
               in if failed res then Inr (state \<lparr> params := p2 \<lparr> optStatus := Error \<rparr> \<rparr>)
                  else finishStep ext evaluate (state \<lparr> params := p2 \<rparr>) (xs_opt res))
      | UnconstrainedConverged \<Rightarrow>
          (if EPround optParams > 1 \<and>
              epConverged2 (lastEPstate optParams) (lastUOstate optParams)
                (lastEPenergy optParams) (lastUOenergy optParams)
           then
             finishStep ext evaluate
               (state \<lparr> params := optParams
                  \<lparr> optStatus := EPConverged,
                    lastEPstate := lastUOstate optParams,
                    lastEPenergy := lastUOenergy optParams \<rparr> \<rparr>) zs
           else
             (case (objective optParams, gradient optParams) of
                (Some obj, Some grad) \<Rightarrow>
                  let w = weightGrowthFactor * weight optParams
                  in finishStep ext evaluate
                       (state \<lparr> params := optParams
                          \<lparr> optStatus := UnconstrainedRunning,
                            weight := w,
                            EPround := EPround optParams + 1,
                            UOround := 0,
                            currObjective := obj w,
                            currGradient := grad w,
                            lastEPstate := lastUOstate optParams,
                            lastEPenergy := lastUOenergy optParams \<rparr> \<rparr>) zs
              | _ \<Rightarrow> Inl TypeError))
      | EPConverged \<Rightarrow> Inr state
      | Error \<Rightarrow> Inr state)"


section \<open>Runs\<close>

text \<open>
  The states of one optimization run that starts in \<open>s\<close>: those reached from \<open>s\<close> by
  calls of \<open>step\<close> that return, none of them on a state with status \<open>NewIter\<close>, where
  \<open>step\<close> initializes the run.
\<close>

inductive inRun ::
  "('e, 'd) Externals \<Rightarrow> ('e, 'd) State \<Rightarrow> ('e, 'd) State \<Rightarrow> bool" for ext s where
  inRun_start: "inRun ext s s"
| inRun_step:
    "inRun ext s s' \<Longrightarrow> optStatus (params s') \<noteq> NewIter \<Longrightarrow>
     step ext s' steps evaluate = Inr s'' \<Longrightarrow> inRun ext s s''"

section \<open>Example inputs\<close>

text \<open>Concrete problems on which the theorems below are evaluated.\<close>

definition exLbfgs :: LbfgsParams where
  "exLbfgs = \<lparr> lastState = None, lastGrad = None, s_list = [], y_list = [],
               numUnconstrSteps = 0, memSize = 17 \<rparr>"

text \<open>The energy \<open>x \<cdot> x\<close> and its gradient, for every weight.\<close>

definition exObjective :: "jsnum \<Rightarrow> jsnum list \<Rightarrow> jsnum" where
  "exObjective w zs = dot zs zs"

definition exGradient :: "jsnum \<Rightarrow> jsnum list \<Rightarrow> jsnum list" where
  "exGradient w zs = scalev (Fin 2) zs"

definition exDict :: "string \<Rightarrow> (VarAD list \<Rightarrow> VarAD) option" where
  "exDict fn = (if fn = ''total'' then Some vsum else None)"

definition exEvalFns :: "unit Fn list \<Rightarrow> unit \<Rightarrow> string list \<Rightarrow> VarAD list \<Rightarrow> FnDone list" where
  "exEvalFns fns d paths vars = map (\<lambda>fn. \<lparr> name = fname fn, args = vars \<rparr>) fns"

definition exExt :: "(unit, unit) Externals" where
  "exExt = \<lparr> initConstraintWeight = Fin (1 / 100),
             defaultLbfgsParams = exLbfgs,
             objDict = exDict,
             constrDict = exDict,
             evalFns = exEvalFns,
             energyAndGradCompiled = (\<lambda>zs vars g wi. (exObjective, exGradient)),
             displayUpdate = (\<lambda>s. Inr ()) \<rparr>"

definition exParams :: Params where
  "exParams = \<lparr> optStatus = UnconstrainedRunning,
                weight = Fin (1 / 100),
                UOround = 0,
                lastUOstate = [Fin 3, Fin (- 1)],
                lastUOenergy = Fin 10,
                EPround = 0,
                lastEPstate = [Fin 3, Fin (- 1)],
                lastEPenergy = Fin 10,
                lastGradient = [Fin 0, Fin 0],
                lastGradientPreconditioned = [Fin 0, Fin 0],
                lbfgsInfo = exLbfgs,
                xsVars = [],
                functionsCompiled = True,
                objective = Some exObjective,
                gradient = Some exGradient,
                currObjective = exObjective (Fin (1 / 100)),
                currGradient = exGradient (Fin (1 / 100)),
                energyGraph = None,
                constrWeightNode = None,
                epWeightNode = None \<rparr>"

definition exState :: "(unit, unit) State" where
  "exState = \<lparr> varyingValues = [Fin 3, Fin (- 1)],
               varyingPaths = [''A.x'', ''B.x''],
               objFns = [\<lparr> fname = ''total'', fargs = [] \<rparr>],
               constrFns = [\<lparr> fname = ''total'', fargs = [] \<rparr>],
               display = (),
               params = exParams \<rparr>"

text \<open>
  A line search in which the sufficient-decrease test fails at every trial: the value
  along the direction is 1, the value passed for the start is 0, the gradient is 0.
\<close>

definition exOne :: "jsnum list \<Rightarrow> jsnum" where
  "exOne zs = Fin 1"

definition exZeroGrad :: "jsnum list \<Rightarrow> jsnum list" where
  "exZeroGrad zs = [Fin 0]"




text \<open>
  The penalty \<open>max(x, 0)^2\<close> of one variable; its derivative is \<open>2 max(x, 0)\<close> where
  \<open>x > 0\<close> and 0 elsewhere, also at NaN, where the comparison is false.
\<close>

definition exPenalty :: "jsnum list \<Rightarrow> jsnum" where
  "exPenalty zs = Math_max (hd zs) (Fin 0) * Math_max (hd zs) (Fin 0)"

definition exPenaltyGrad :: "jsnum list \<Rightarrow> jsnum list" where
  "exPenaltyGrad zs = [if hd zs > Fin 0 then Fin 2 * Math_max (hd zs) (Fin 0) else Fin 0]"


text \<open>
  The second call of the estimator on \<open>f(x) = (x - 1)^2 / 2\<close>: the first step went from
  0, with gradient -1, to the minimum 1, where the gradient is 0.
\<close>

definition exLbfgsSecond :: LbfgsParams where
  "exLbfgsSecond = \<lparr> lastState = Some [Fin 0], lastGrad = Some [Fin (- 1)],
                     s_list = [], y_list = [], numUnconstrSteps = 1, memSize = 17 \<rparr>"


text \<open>States of the example problem in the other phases of the state machine.\<close>

definition exTerminal :: "(unit, unit) State" where
  "exTerminal = exState \<lparr> params := exParams \<lparr> optStatus := EPConverged \<rparr> \<rparr>"

definition exUOConverged :: "(unit, unit) State" where
  "exUOConverged = exState \<lparr> params := exParams \<lparr> optStatus := UnconstrainedConverged \<rparr> \<rparr>"

definition exUOConvergedTwice :: "(unit, unit) State" where
  "exUOConvergedTwice =
     exState \<lparr> params := exParams \<lparr> optStatus := UnconstrainedConverged, EPround := 2 \<rparr> \<rparr>"







section \<open>The energy in the words of the spec\<close>

text \<open>
  The spec's sum of term energies and its one-sided penalty transform
  \<open>penalty(c) = max(c, 0)^2\<close>, on numbers.
\<close>

definition energySum :: "jsnum list \<Rightarrow> jsnum" where
  "energySum vs = foldl (+) (Fin 0) vs"

definition penalty :: "jsnum \<Rightarrow> jsnum" where
  "penalty c = Math_max c (Fin 0) * Math_max c (Fin 0)"

section \<open>Auxiliary facts\<close>

lemma finishStep_False: "finishStep ext False s zs = Inr s"
  by (simp add: finishStep_def)

lemma finishStep_params: "finishStep ext ev s zs = Inr s' \<Longrightarrow> params s' = params s"
  by (auto simp: finishStep_def Let_def split: if_splits sum.splits)

lemma containsNaN_loop_keys: "containsNaN_loop (map (\<lambda>i. JStr (g i)) ks) = False"
  by (induction ks) auto

lemma containsNaN_False: "containsNaN numberList = False"
  by (simp add: containsNaN_def forin_keys_def containsNaN_loop_keys)

lemma lbfgsInner_error: "lbfgsInner g ss ys = Inl e \<Longrightarrow> e = TypeError"
  by (auto simp: lbfgsInner_def Let_def split: if_splits prod.splits)

lemma lbfgs_error: "lbfgs zs g info = Inl e \<Longrightarrow> e = TypeError \<or> e = Invalid_LBFGS_state"
  by (auto simp: lbfgs_def Let_def split: if_splits option.splits sum.splits
           dest: lbfgsInner_error)

lemma minimizeLoop_no_NaN_throw:
  "minimizeLoop f gradf n st \<noteq> Inl NaN_in_xs \<and>
   minimizeLoop f gradf n st \<noteq> Inl NaN_in_gradfxs"
proof (induction n arbitrary: st)
  case 0
  then show ?case by simp
next
  case (Suc n)
  show ?case
    using Suc.IH
    by (auto simp: containsNaN_False Let_def split: sum.splits dest: lbfgs_error)
qed

lemma minimize_0:
  "minimize xs0 f gradf info paths 0 =
     Inr \<lparr> xs_opt = xs0, energyVal = Fin 0, normGrad = Fin 0, newLbfgsInfo = info,
           gradient_opt = repeat (length xs0) (Fin 0),
           gradientPreconditioned = repeat (length xs0) (Fin 0),
           failed = False \<rparr>"
  by (simp add: minimize_def)

lemma unconstrainedConverged2_0: "unconstrainedConverged2 (Fin 0)"
  by (simp add: unconstrainedConverged2_def uoStop_def)

lemma epConverged2_unfold:
  "epConverged2 xs0 xs1 fxs0 fxs1 =
     (normList (subv xs1 xs0) < Fin (1 / 1000) \<or> \<bar>fxs1 - fxs0\<bar> < Fin (1 / 1000))"
  by (simp add: epConverged2_def epStop_def Let_def)

lemma step_weight:
  assumes "optStatus (params s) \<noteq> NewIter" and "step ext s n ev = Inr s'"
  shows "weight (params s') = weight (params s) \<or>
         weight (params s') = weightGrowthFactor * weight (params s)"
proof (cases "optStatus (params s)")
  case NewIter
  with assms show ?thesis by simp
next
  case UnconstrainedRunning
  with assms show ?thesis
    by (auto simp: step_def Let_def split: sum.splits if_splits dest!: finishStep_params)
next
  case UnconstrainedConverged
  with assms show ?thesis
    by (auto simp: step_def Let_def split: sum.splits if_splits option.splits
             dest!: finishStep_params)
next
  case EPConverged
  with assms show ?thesis by (simp add: step_def)
next
  case Error
  with assms show ?thesis by (simp add: step_def)
qed

lemma inRun_weight:
  assumes "inRun ext s s'" and "weight (params s) = Fin w" and "0 \<le> w"
  shows "\<exists>k. weight (params s') = Fin (10 ^ k * w)"
  using assms
proof (induction rule: inRun.induct)
  case inRun_start
  then show ?case by (intro exI [of _ 0]) simp
next
  case (inRun_step s' steps evaluate s'')
  then obtain k where k: "weight (params s') = Fin (10 ^ k * w)" by blast
  from step_weight [OF inRun_step.hyps(2) inRun_step.hyps(3)]
  show ?case
  proof
    assume "weight (params s'') = weight (params s')"
    with k show ?thesis by auto
  next
    assume "weight (params s'') = weightGrowthFactor * weight (params s')"
    with k have "weight (params s'') = Fin (10 ^ Suc k * w)"
      by (simp add: weightGrowthFactor_def)
    then show ?thesis by blast
  qed
qed

section \<open>The outer convergence step\<close>

text \<open>
  C1. On a state whose status is \<open>UnconstrainedConverged\<close>, and whose compiled closures
  \<open>objective\<close> and \<open>gradient\<close> are present, \<open>step\<close> moves to \<open>EPConverged\<close> exactly
  when \<open>EPround\<close> exceeds 1 and the norm of \<open>lastUOstate - lastEPstate\<close> is below
  \<open>1e-3\<close> or \<open>|lastUOenergy - lastEPenergy|\<close> is below \<open>1e-3\<close>. Otherwise it multiplies
  the weight by 10, increments \<open>EPround\<close>, resets \<open>UOround\<close> to 0, binds
  \<open>currObjective\<close> and \<open>currGradient\<close> to the new weight and goes back to
  \<open>UnconstrainedRunning\<close>. In both branches \<open>lastEPstate\<close> and \<open>lastEPenergy\<close> take the
  last unconstrained state and energy. The call returns that state when \<open>evaluate\<close>
  is false, and passes it to the display update otherwise.
\<close>

theorem step_UnconstrainedConverged:
  assumes "optStatus (params state) = UnconstrainedConverged"
      and "objective (params state) = Some obj"
      and "gradient (params state) = Some grad"
  shows "let p = params state;
             outerConverged =
               (EPround p > 1 \<and>
                (normList (subv (lastUOstate p) (lastEPstate p)) < Fin (1 / 1000) \<or>
                 \<bar>lastUOenergy p - lastEPenergy p\<bar> < Fin (1 / 1000)));
             p' = (if outerConverged
                   then p \<lparr> optStatus := EPConverged,
                            lastEPstate := lastUOstate p,
                            lastEPenergy := lastUOenergy p \<rparr>
                   else p \<lparr> optStatus := UnconstrainedRunning,
                            weight := Fin 10 * weight p,
                            UOround := 0,
                            EPround := EPround p + 1,
                            lastEPstate := lastUOstate p,
                            lastEPenergy := lastUOenergy p,
                            currObjective := obj (Fin 10 * weight p),
                            currGradient := grad (Fin 10 * weight p) \<rparr>)
         in step ext state steps evaluate =
              finishStep ext evaluate (state \<lparr> params := p' \<rparr>) (varyingValues state) \<and>
            step ext state steps False = Inr (state \<lparr> params := p' \<rparr>) \<and>
            (optStatus p' = EPConverged \<longleftrightarrow> outerConverged)"
  using assms
  by (cases "params state")
     (auto simp: step_def Let_def epConverged2_unfold weightGrowthFactor_def finishStep_False)

theorem step_UnconstrainedConverged_witness:
  "optStatus (params exUOConverged) = UnconstrainedConverged \<and>
   objective (params exUOConverged) = Some exObjective \<and>
   gradient (params exUOConverged) = Some exGradient \<and>
   step exExt exUOConverged 100 False =
     Inr (exState \<lparr> params := exParams
       \<lparr> optStatus := UnconstrainedRunning,
         weight := Fin (1 / 10),
         EPround := 1,
         currObjective := exObjective (Fin (1 / 10)),
         currGradient := exGradient (Fin (1 / 10)) \<rparr> \<rparr>) \<and>
   optStatus (params exUOConvergedTwice) = UnconstrainedConverged \<and>
   step exExt exUOConvergedTwice 100 False =
     Inr (exState \<lparr> params := exParams \<lparr> optStatus := EPConverged, EPround := 2 \<rparr> \<rparr>)"
proof -
  have k1: "optStatus (params exUOConvergedTwice) = UnconstrainedConverged"
    by (simp add: exUOConvergedTwice_def)
  have k2: "objective (params exUOConvergedTwice) = Some exObjective"
    by (simp add: exUOConvergedTwice_def exParams_def)
  have k3: "gradient (params exUOConvergedTwice) = Some exGradient"
    by (simp add: exUOConvergedTwice_def exParams_def)
  have twice: "step exExt exUOConvergedTwice 100 False =
     Inr (exState \<lparr> params := exParams \<lparr> optStatus := EPConverged, EPround := 2 \<rparr> \<rparr>)"
    using step_UnconstrainedConverged [OF k1 k2 k3, of exExt 100 False]
    by (simp add: exUOConvergedTwice_def exParams_def Let_def finishStep_False
          normList_def subv_def minus_jsnum_def)
  have h1: "optStatus (params exUOConverged) = UnconstrainedConverged"
    by (simp add: exUOConverged_def)
  have h2: "objective (params exUOConverged) = Some exObjective"
    by (simp add: exUOConverged_def exParams_def)
  have h3: "gradient (params exUOConverged) = Some exGradient"
    by (simp add: exUOConverged_def exParams_def)
  show ?thesis
    using k1 twice step_UnconstrainedConverged [OF h1 h2 h3, of exExt 100 False]
    by (simp add: exUOConverged_def exParams_def Let_def finishStep_False)
qed


section \<open>Terminal states\<close>

text \<open>
  C7. On a state whose status is \<open>EPConverged\<close> or \<open>Error\<close>, \<open>step\<close> returns the state
  it was given, whatever the budget and the \<open>evaluate\<close> flag: the variable vector, the
  status and every other field are the same, and a further call is again a no-op.
\<close>

theorem step_terminal_noop:
  "optStatus (params state) = EPConverged \<or> optStatus (params state) = Error \<Longrightarrow>
   step ext state steps evaluate = Inr state"
  by (auto simp: step_def Let_def)

theorem step_terminal_noop_witness:
  "(optStatus (params exTerminal) = EPConverged \<or> optStatus (params exTerminal) = Error) \<and>
   step exExt exTerminal 100 True = Inr exTerminal"
proof -
  have h: "optStatus (params exTerminal) = EPConverged \<or> optStatus (params exTerminal) = Error"
    by (simp add: exTerminal_def)
  show ?thesis
    using h step_terminal_noop [OF h, of exExt 100 True] by simp
qed

section \<open>The penalty weight\<close>

lemma exUOConverged_step:
  "step exExt exUOConverged 100 False =
     Inr (exState \<lparr> params := exParams
       \<lparr> optStatus := UnconstrainedRunning,
         weight := Fin (1 / 10),
         EPround := 1,
         currObjective := exObjective (Fin (1 / 10)),
         currGradient := exGradient (Fin (1 / 10)) \<rparr> \<rparr>)"
  by (simp add: step_def exUOConverged_def exParams_def Let_def finishStep_False
        weightGrowthFactor_def)

text \<open>
  C8. Along a run, that is over calls of \<open>step\<close> none of which is the \<open>NewIter\<close>
  initialization, and from a start state whose weight is finite and not negative (the
  initialization sets it to the starting constant), every call leaves the weight as it
  is or multiplies it by the growth factor 10, and the weight never decreases: the
  weight before the call is at least the weight at the start of the run, and the weight
  after the call is at least the weight before it.
\<close>

theorem weight_nondecreasing:
  assumes "inRun ext s s'"
      and "optStatus (params s') \<noteq> NewIter"
      and "step ext s' steps evaluate = Inr s''"
      and "weight (params s) = Fin w" and "0 \<le> w"
  shows "(weight (params s'') = weight (params s') \<or>
          weight (params s'') = Fin 10 * weight (params s')) \<and>
         weight (params s) \<le> weight (params s') \<and>
         weight (params s') \<le> weight (params s'')"
proof -
  obtain k where k: "weight (params s') = Fin (10 ^ k * w)"
    using inRun_weight [OF assms(1) assms(4) assms(5)] by blast
  have ch: "weight (params s'') = weight (params s') \<or>
            weight (params s'') = Fin 10 * weight (params s')"
    using step_weight [OF assms(2) assms(3)] by (simp add: weightGrowthFactor_def)
  have one: "(1::real) \<le> 10 ^ k" by simp
  have "w \<le> 10 ^ k * w"
    using mult_right_mono [OF one assms(5)] by simp
  then have le1: "weight (params s) \<le> weight (params s')"
    using k assms(4) by simp
  have "10 ^ k * w \<le> 10 * (10 ^ k * w)" using assms(5) by simp
  then have le2: "weight (params s') \<le> weight (params s'')"
    using ch k by auto
  from ch le1 le2 show ?thesis by blast
qed

theorem weight_nondecreasing_witness:
  "inRun exExt exUOConverged exUOConverged \<and>
   optStatus (params exUOConverged) \<noteq> NewIter \<and>
   weight (params exUOConverged) = Fin (1 / 100) \<and> (0::real) \<le> 1 / 100 \<and>
   weight (params exUOConverged) \<le> Fin (1 / 10)"
proof -
  have h1: "inRun exExt exUOConverged exUOConverged" by (rule inRun_start)
  have h2: "optStatus (params exUOConverged) \<noteq> NewIter"
    by (simp add: exUOConverged_def)
  have h4: "weight (params exUOConverged) = Fin (1 / 100)"
    by (simp add: exUOConverged_def exParams_def)
  have h5: "(0::real) \<le> 1 / 100" by simp
  show ?thesis
    using h1 h2 h4 h5 weight_nondecreasing [OF h1 h2 exUOConverged_step h4 h5]
    by simp
qed

section \<open>The NaN guard of \<open>minimize\<close>\<close>

text \<open>
  C9. \<open>containsNaN\<close> is false of every list of numbers, also of one that contains NaN:
  its loop tests the index strings of the array, never its elements. So neither of the
  two guards of a \<open>minimize\<close> iteration throws: \<open>minimize\<close> never ends with the error
  "NaN in xs" or "NaN in gradfxs".
\<close>

theorem containsNaN_never:
  "containsNaN numberList = False \<and>
   minimize xs0 f gradf info paths numSteps \<noteq> Inl NaN_in_xs \<and>
   minimize xs0 f gradf info paths numSteps \<noteq> Inl NaN_in_gradfxs"
  by (simp add: containsNaN_False minimize_def minimizeLoop_no_NaN_throw)

theorem containsNaN_never_witness:
  "containsNaN [Fin 1, NaN] = False \<and>
   minimize [NaN] exPenalty exPenaltyGrad exLbfgs [''A.x''] 1 \<noteq> Inl NaN_in_xs \<and>
   minimize [NaN] exPenalty exPenaltyGrad exLbfgs [''A.x''] 1 \<noteq> Inl NaN_in_gradfxs"
  using containsNaN_never [of "[Fin 1, NaN]" "[NaN]" exPenalty exPenaltyGrad exLbfgs "[''A.x'']" 1]
  by simp

section \<open>A step with no budget\<close>

text \<open>
  C10. With a budget of 0, \<open>minimize\<close> runs no iteration: whatever the energy and
  gradient closures are, it returns the variables it was given, the energy 0, the
  gradient norm 0 and zero gradients, and has not failed. So \<open>step\<close> on a state whose
  status is \<open>UnconstrainedRunning\<close> leaves the variable vector as it is, records 0 as
  the last unconstrained energy, and moves to \<open>UnconstrainedConverged\<close>.
\<close>

theorem step_budget_0:
  assumes "optStatus (params state) = UnconstrainedRunning"
  shows "minimize (varyingValues state) f gradf info paths 0 =
           Inr \<lparr> xs_opt = varyingValues state, energyVal = Fin 0, normGrad = Fin 0,
                 newLbfgsInfo = info,
                 gradient_opt = repeat (length (varyingValues state)) (Fin 0),
                 gradientPreconditioned = repeat (length (varyingValues state)) (Fin 0),
                 failed = False \<rparr> \<and>
         step ext state 0 evaluate =
           finishStep ext evaluate
             (state \<lparr> params := (params state)
                \<lparr> lastUOstate := varyingValues state,
                  lastUOenergy := Fin 0,
                  UOround := UOround (params state) + 1,
                  lbfgsInfo := defaultLbfgsParams ext,
                  lastGradient := repeat (length (varyingValues state)) (Fin 0),
                  lastGradientPreconditioned := repeat (length (varyingValues state)) (Fin 0),
                  optStatus := UnconstrainedConverged \<rparr> \<rparr>)
             (varyingValues state) \<and>
         map_sum id (optStatus \<circ> params) (step ext state 0 False) = Inr UnconstrainedConverged \<and>
         map_sum id varyingValues (step ext state 0 False) = Inr (varyingValues state)"
  using assms
  by (cases "params state")
     (simp add: step_def minimize_0 unconstrainedConverged2_0 Let_def finishStep_False)

theorem step_budget_0_witness:
  "optStatus (params exState) = UnconstrainedRunning \<and>
   step exExt exState 0 True =
     Inr (exState \<lparr> params := exParams
       \<lparr> optStatus := UnconstrainedConverged,
         UOround := 1,
         lastUOenergy := Fin 0 \<rparr> \<rparr>)"
proof -
  have h: "optStatus (params exState) = UnconstrainedRunning"
    by (simp add: exState_def exParams_def)
  show ?thesis
    using h step_budget_0 [OF h, where ext = exExt and evaluate = True]
    by (simp add: exState_def exParams_def exExt_def finishStep_def repeat_def)
qed


section \<open>Line search\<close>

text \<open>
  C5. The search starts from the bracket \<open>[0, +\<infinity>)\<close> and the trial step 1. In every
  iteration that the stop test lets run, with the constants 0.001 and 0.9: when the
  sufficient-decrease test \<open>f(x0 + t d) \<le> f0 + 0.001 t \<langle>\<nabla>f(x0), d\<rangle>\<close> fails, the upper
  bound becomes \<open>t\<close>; else when the curvature test
  \<open>\<langle>\<nabla>f(x0 + t d), d\<rangle> \<ge> 0.9 \<langle>\<nabla>f(x0), d\<rangle>\<close> fails, the lower bound becomes \<open>t\<close>;
  else \<open>t\<close> is returned. The next trial is the midpoint of the new bracket when its
  upper bound is below infinity, and twice the lower bound otherwise.
\<close>

theorem awLineSearch2_iteration:
  "awLineSearch2 xs0 f gradf gradfxs0 fxs0 maxSteps =
     awLoop f gradf xs0 (negv gradfxs0) fxs0 (dot (negv gradfxs0) (gradf xs0))
       minInterval maxSteps 0 (Fin 0) PInf (Fin 1) \<and>
   (\<not> shouldStop minIv maxSteps i a b \<longrightarrow>
    awLoop f gradf xs0 d fxs0 (dot d (gradf xs0)) minIv maxSteps i a b t =
      (if \<not> f (addv xs0 (scalev t d)) \<le> fxs0 + Fin (1 / 1000) * t * dot d (gradf xs0)
       then awLoop f gradf xs0 d fxs0 (dot d (gradf xs0)) minIv maxSteps (i + 1) a t
              (if t < PInf then (a + t) / Fin 2 else Fin 2 * a)
       else if \<not> dot d (gradf (addv xs0 (scalev t d))) \<ge> Fin (9 / 10) * dot d (gradf xs0)
       then awLoop f gradf xs0 d fxs0 (dot d (gradf xs0)) minIv maxSteps (i + 1) t b
              (if b < PInf then (t + b) / Fin 2 else Fin 2 * t)
       else t))"
proof -
  have init: "awLineSearch2 xs0 f gradf gradfxs0 fxs0 maxSteps =
     awLoop f gradf xs0 (negv gradfxs0) fxs0 (dot (negv gradfxs0) (gradf xs0))
       minInterval maxSteps 0 (Fin 0) PInf (Fin 1)"
    by (simp add: awLineSearch2_def awLineSearchWith_def duf_def Let_def)
  have iter: "awLoop f gradf xs0 d fxs0 (dot d (gradf xs0)) minIv maxSteps i a b t =
      (if \<not> f (addv xs0 (scalev t d)) \<le> fxs0 + Fin (1 / 1000) * t * dot d (gradf xs0)
       then awLoop f gradf xs0 d fxs0 (dot d (gradf xs0)) minIv maxSteps (i + 1) a t
              (if t < PInf then (a + t) / Fin 2 else Fin 2 * a)
       else if \<not> dot d (gradf (addv xs0 (scalev t d))) \<ge> Fin (9 / 10) * dot d (gradf xs0)
       then awLoop f gradf xs0 d fxs0 (dot d (gradf xs0)) minIv maxSteps (i + 1) t b
              (if b < PInf then (t + b) / Fin 2 else Fin 2 * t)
       else t)" if "\<not> shouldStop minIv maxSteps i a b"
    using that
    by (subst awLoop.simps)
       (simp add: armijo_def weakWolfe_def nextTrial_def duf_def c1_def c2_def Let_def)
  from init iter show ?thesis by blast
qed

text \<open>
  On \<open>f(x) = x \<cdot> x\<close> at \<open>x0 = [10]\<close> along \<open>-\<nabla>f(x0) = [-20]\<close>: the trial 1 overshoots
  to \<open>-10\<close>, where the energy has not decreased, so the first iteration sets the upper
  bound to 1 and the next trial to 1/2.
\<close>

theorem awLineSearch2_iteration_witness:
  "\<not> shouldStop minInterval 10 0 (Fin 0) PInf \<and>
   awLoop (exObjective (Fin 1)) (exGradient (Fin 1)) [Fin 10] [Fin (- 20)] (Fin 100)
     (dot [Fin (- 20)] (exGradient (Fin 1) [Fin 10])) minInterval 10 0 (Fin 0) PInf (Fin 1) =
   awLoop (exObjective (Fin 1)) (exGradient (Fin 1)) [Fin 10] [Fin (- 20)] (Fin 100)
     (dot [Fin (- 20)] (exGradient (Fin 1) [Fin 10])) minInterval 10 1 (Fin 0) (Fin 1)
     (Fin (1 / 2))"
proof -
  have h: "\<not> shouldStop minInterval 10 0 (Fin 0) PInf"
    by (simp add: shouldStop_def minInterval_def minus_jsnum_def)
  have c: "\<not> exObjective (Fin 1) (addv [Fin 10] (scalev (Fin 1) [Fin (- 20)])) \<le>
           Fin 100 + Fin (1 / 1000) * Fin 1 * dot [Fin (- 20)] (exGradient (Fin 1) [Fin 10])"
    by (simp add: exObjective_def exGradient_def addv_def scalev_def dot_def)
  show ?thesis
    using h c
      awLineSearch2_iteration [of "[Fin 10]" "exObjective (Fin 1)" "exGradient (Fin 1)"
        "[Fin 20]" "Fin 100" 10 minInterval 0 "Fin 0" PInf "[Fin (- 20)]" "Fin 1"]
    by simp
qed

text \<open>
  C4, as the code has it. The loop of the search ends for every input: its counter grows
  by one in every iteration and the loop stops once it exceeds \<open>maxSteps\<close>. The loop
  returns the current trial \<open>t\<close>, without testing the two conditions, as soon as the
  bracket width \<open>|b - a|\<close> is below \<open>1e-9\<close> (the literal \<open>10e-10\<close> of the source, not
  \<open>1e-10\<close>) or the counter exceeds \<open>maxSteps\<close>; that is the whole stop test.
\<close>

theorem awLineSearch2_stops:
  "(shouldStop minInterval maxSteps i a b \<longleftrightarrow>
      \<bar>b - a\<bar> < Fin (1 / 10 ^ 9) \<or> maxSteps < i) \<and>
   (\<bar>b - a\<bar> < Fin (1 / 10 ^ 9) \<or> maxSteps < i \<longrightarrow>
      awLoop f gradf xs0 d fxs0 du minInterval maxSteps i a b t = t)"
proof -
  have test: "shouldStop minInterval maxSteps i a b \<longleftrightarrow>
      \<bar>b - a\<bar> < Fin (1 / 10 ^ 9) \<or> maxSteps < i"
    by (simp add: shouldStop_def minInterval_def Let_def)
  have "awLoop f gradf xs0 d fxs0 du minInterval maxSteps i a b t = t"
    if "shouldStop minInterval maxSteps i a b"
    using that by (subst awLoop.simps) simp
  with test show ?thesis by blast
qed

theorem awLineSearch2_stops_witness:
  "(\<bar>Fin (1 / 2 ^ 30) - Fin 0\<bar> < Fin (1 / 10 ^ 9) \<or> (40::nat) < 31) \<and>
   awLoop exOne exZeroGrad [Fin 0] [Fin 0] (Fin 0) (Fin 0) minInterval 40 31
     (Fin 0) (Fin (1 / 2 ^ 30)) (Fin (1 / 2 ^ 31)) = Fin (1 / 2 ^ 31)"
proof -
  have h: "\<bar>Fin (1 / 2 ^ 30) - Fin 0\<bar> < Fin (1 / 10 ^ 9) \<or> (40::nat) < 31"
    by (simp add: minus_jsnum_def)
  show ?thesis
    using h
      awLineSearch2_stops [of 40 31 "Fin 0" "Fin (1 / 2 ^ 30)" exOne exZeroGrad "[Fin 0]"
        "[Fin 0]" "Fin 0" "Fin 0" "Fin (1 / 2 ^ 31)"]
    by simp
qed

text \<open>
  With a bound of 40 steps and a sufficient-decrease test that always fails, the bracket
  halves in every iteration. The code returns \<open>2^-31\<close>, at the first width below
  \<open>1e-9\<close> (\<open>2^-30\<close>, which is not below \<open>1e-10\<close>), after 31 of the 40 steps; a search
  that stops at a width below \<open>1e-10\<close> returns \<open>2^-35\<close>.
\<close>

theorem awLineSearch2_width_counterexample:
  "awLineSearch2 [Fin 0] exOne exZeroGrad [Fin 0] (Fin 0) 40 = Fin (1 / 2 ^ 31) \<and>
   awLineSearchWith (Fin (1 / 10 ^ 10)) [Fin 0] exOne exZeroGrad [Fin 0] (Fin 0) 40 =
     Fin (1 / 2 ^ 35) \<and>
   \<not> Fin (1 / 2 ^ 30) < Fin (1 / 10 ^ 10)"
  by (simp add: awLineSearch2_def awLineSearchWith_def awLoop.simps shouldStop_def armijo_def
        weakWolfe_def nextTrial_def duf_def dot_def negv_def addv_def scalev_def exOne_def
        exZeroGrad_def minInterval_def c1_def c2_def minus_jsnum_def Let_def)


section \<open>The compiled energy\<close>

lemma val_foldl_add: "val (foldl add a vs) = foldl (+) (val a) (map val vs)"
  by (induction vs arbitrary: a) (simp_all add: add_def)

lemma val_vsum: "val (vsum vs) = energySum (map val vs)"
  by (simp add: vsum_def energySum_def val_foldl_add variableAD_def)

lemma val_toPenalty: "val (toPenalty c) = penalty (val c)"
  by (simp add: toPenalty_def squared_def maxAD_def variableAD_def penalty_def)

lemma val_toPenalty_comp: "val \<circ> toPenalty = penalty \<circ> val"
  by (rule ext) (simp add: val_toPenalty)

lemma mapE_map_sum:
  "mapE (\<lambda>c. map_sum id h (g c)) cs = map_sum id (map h) (mapE g cs)"
  by (induction cs) (auto split: sum.splits)

lemma jsnum_mult_assoc_pos: "0 < k \<Longrightarrow> x * (Fin k * y) = x * Fin k * y"
  by (cases x; cases y) (auto simp: zero_less_mult_iff mult_less_0_iff)

text \<open>
  C6. When every objective and constraint term has an implementation in its dictionary,
  the energy node that \<open>evalEnergyOnCustom\<close> builds is
  \<open>add objEng (mul constrEng (mul constrWeightNode epWeightNode))\<close>, and its value is
  \<open>objEnergy + constrEnergy * 1e5 * penaltyWeight\<close>: \<open>objEnergy\<close> the sum of the
  objective energies, \<open>constrEnergy\<close> the sum of the constraint energies after the
  penalty transform, \<open>1e5\<close> the constant \<open>constraintWeight\<close>, and the penalty weight the
  value of the node \<open>epWeightNode\<close>, which is marked as an input (with index -1) and holds
  the weight of the state.
\<close>

theorem evalEnergyOnCustom_energy:
  assumes "mapE (\<lambda>ob. applyFn ob (objDict ext))
             (evalFns ext (objFns state) (display state) (varyingPaths state) vars) = Inr objEngs"
      and "mapE (\<lambda>c. applyFn c (constrDict ext))
             (evalFns ext (constrFns state) (display state) (varyingPaths state) vars) = Inr constrs"
  shows "let constrWeightN = varOf (Fin 100000) ''constraintWeight'';
             penaltyWeightN = markInput (varOf (weight (params state)) ''epWeight'') (- 1);
             overall = add (vsum objEngs)
                         (mul (vsum (map toPenalty constrs)) (mul constrWeightN penaltyWeightN))
         in evalEnergyOnCustom ext state vars =
              Inr \<lparr> res_energyGraph = overall,
                    res_constrWeightNode = constrWeightN,
                    res_epWeightNode = penaltyWeightN \<rparr> \<and>
            val overall =
              energySum (map val objEngs) +
              energySum (map (penalty \<circ> val) constrs) * Fin 100000 * val penaltyWeightN \<and>
            val penaltyWeightN = weight (params state) \<and>
            isInput penaltyWeightN \<and> index penaltyWeightN = - 1"
proof -
  have c: "mapE (\<lambda>c. map_sum id toPenalty (applyFn c (constrDict ext)))
             (evalFns ext (constrFns state) (display state) (varyingPaths state) vars) =
           Inr (map toPenalty constrs)"
    by (simp add: mapE_map_sum assms(2))
  show ?thesis
    by (simp add: evalEnergyOnCustom_def assms(1) c Let_def constraintWeight_def
          add_def mul_def val_vsum val_toPenalty_comp markInput_def varOf_def variableAD_def
          jsnum_mult_assoc_pos)
qed

text \<open>
  The example problem has one objective and one constraint, both the sum of the two
  variables 3 and -1, and the weight 0.01: the energy is \<open>2 + 4 * 1e5 * 0.01 = 4002\<close>.
\<close>

theorem evalEnergyOnCustom_energy_witness:
  "mapE (\<lambda>ob. applyFn ob (objDict exExt))
     (evalFns exExt (objFns exState) (display exState) (varyingPaths exState)
        (makeADInputVars [Fin 3, Fin (- 1)])) = Inr [vsum (makeADInputVars [Fin 3, Fin (- 1)])] \<and>
   mapE (\<lambda>c. applyFn c (constrDict exExt))
     (evalFns exExt (constrFns exState) (display exState) (varyingPaths exState)
        (makeADInputVars [Fin 3, Fin (- 1)])) = Inr [vsum (makeADInputVars [Fin 3, Fin (- 1)])] \<and>
   map_sum id (val \<circ> res_energyGraph)
     (evalEnergyOnCustom exExt exState (makeADInputVars [Fin 3, Fin (- 1)])) = Inr (Fin 4002)"
proof -
  have h: "mapE (\<lambda>ob. applyFn ob exDict)
     (exEvalFns [\<lparr> fname = ''total'', fargs = [] \<rparr>] () [''A.x'', ''B.x'']
        (makeADInputVars [Fin 3, Fin (- 1)])) = Inr [vsum (makeADInputVars [Fin 3, Fin (- 1)])]"
    by (simp add: exEvalFns_def applyFn_def exDict_def)
  have h1: "mapE (\<lambda>ob. applyFn ob (objDict exExt))
     (evalFns exExt (objFns exState) (display exState) (varyingPaths exState)
        (makeADInputVars [Fin 3, Fin (- 1)])) = Inr [vsum (makeADInputVars [Fin 3, Fin (- 1)])]"
    using h by (simp add: exExt_def exState_def)
  have h2: "mapE (\<lambda>c. applyFn c (constrDict exExt))
     (evalFns exExt (constrFns exState) (display exState) (varyingPaths exState)
        (makeADInputVars [Fin 3, Fin (- 1)])) = Inr [vsum (makeADInputVars [Fin 3, Fin (- 1)])]"
    using h by (simp add: exExt_def exState_def)
  have v: "val (vsum (makeADInputVars [Fin 3, Fin (- 1)])) = Fin 2"
    by (simp add: val_vsum energySum_def makeADInputVars_def markInput_def variableAD_def upt_rec)
  show ?thesis
    using h1 h2 evalEnergyOnCustom_energy [OF h1 h2]
    by (simp add: Let_def v energySum_def penalty_def Math_max_def markInput_def varOf_def
          variableAD_def exState_def exParams_def)
qed

section \<open>The descent check of L-BFGS\<close>

lemma lbfgsInner_example: "lbfgsInner [Fin 0] [[Fin 1]] [[Fin 1]] = Inr [Fin 0]"
  by (simp add: lbfgsInner_def calculate_rho_def estimate_hess_def dotVec_def matSub_def
        matAdd_def vmul_def identity_def mmul_def matMul_def EPSD_def minus_jsnum_def Let_def)

text \<open>
  C3, at a call where the check is neither negative nor positive. On the second call of
  the estimator for \<open>f(x) = (x - 1)^2 / 2\<close>, at the minimum 1 with gradient 0 after a
  step from 0 with gradient -1, the two-loop result is \<open>r = [0]\<close> and \<open>-(r \<cdot> g)\<close> is 0,
  which is not below 0. The code tests \<open>descentDirCheck > 0.0\<close>, so it accepts \<open>r\<close>: it
  returns \<open>r\<close>, keeps the new pair in \<open>s_list\<close> and \<open>y_list\<close>, and counts the step as
  the second one, where a reset would empty the lists and set the counter to 1.
\<close>

theorem lbfgs_zero_check_accepted:
  "lbfgs [Fin 1] [Fin 0] exLbfgsSecond =
     Inr \<lparr> gradfxsPreconditioned = [Fin 0],
           updatedLbfgsInfo =
             \<lparr> lastState = Some [Fin 1], lastGrad = Some [Fin 0],
               s_list = [[Fin 1]], y_list = [[Fin 1]],
               numUnconstrSteps = 2, memSize = 17 \<rparr> \<rparr> \<and>
   lbfgsInner [Fin 0] [[Fin 1]] [[Fin 1]] = Inr [Fin 0] \<and>
   \<not> (- dotVec [Fin 0] [Fin 0] < Fin 0)"
  by (simp add: lbfgs_def exLbfgsSecond_def colVec_def vecList_def matSub_def minus_jsnum_def
        lbfgsInner_example dotVec_def Let_def)

theorem lbfgs_zero_check_accepted_witness:
  "map_sum id (s_list \<circ> updatedLbfgsInfo) (lbfgs [Fin 1] [Fin 0] exLbfgsSecond) =
     Inr [[Fin 1]] \<and>
   map_sum id (numUnconstrSteps \<circ> updatedLbfgsInfo) (lbfgs [Fin 1] [Fin 0] exLbfgsSecond) =
     Inr 2"
  using lbfgs_zero_check_accepted by simp


section \<open>Non-finite values in a step\<close>











end
